theory Spec2Isabelle
  imports Complex_Main
begin

section \<open>Attendance sessions (the AttendanceSession model)\<close>

text \<open>
  The session document of the AttendanceSession schema. Dates are the millisecond
  counts a JavaScript Date holds (\<open>getTime()\<close>), so a point in time is an \<open>int\<close>;
  \<open>settings.attendanceWindowMinutes\<close> is taken as a whole number of minutes. Object
  ids are natural numbers. Only the fields that the session methods read or write are
  kept. The two last fields are the bookkeeping of the document layer that the
  pre-save hook consults: whether the document was never stored, and the paths
  assigned since it was last stored (a path is the list of its dot-separated
  segments).
\<close>

datatype session_status = Scheduled | Active | Completed | Cancelled

type_synonym path = "string list"

record attendance_window =
  window_start :: int
  window_end :: int

record session_settings =
  allowLateAttendance :: bool
  requireLocation :: bool
  requireBiometric :: bool
  autoMarkAbsent :: bool
  attendanceWindowMinutes :: int

record session_statistics =
  totalStudents :: nat
  presentCount :: nat
  absentCount :: nat
  lateCount :: nat
  excusedCount :: nat
  attendancePercentage :: real

record attendance_session =
  session_id :: nat
  startTime :: int
  endTime :: int
  attendanceWindow :: attendance_window
  status :: session_status
  settings :: session_settings
  attendance :: "nat list"
  statistics :: session_statistics
  isNew :: bool
  modifiedPaths :: "path list"

subsection \<open>Change tracking of the document layer\<close>

fun is_prefix :: "'a list \<Rightarrow> 'a list \<Rightarrow> bool" where
  "is_prefix [] ys = True"
| "is_prefix (x # xs) [] = False"
| "is_prefix (x # xs) (y # ys) = (x = y \<and> is_prefix xs ys)"

text \<open>
  \<open>isModified(p)\<close> holds when \<open>p\<close> was assigned, when a path below \<open>p\<close> was
  assigned, or when a path above \<open>p\<close> was assigned.
\<close>

definition isModified :: "path \<Rightarrow> attendance_session \<Rightarrow> bool" where
  "isModified p s = list_ex (\<lambda>m. is_prefix p m \<or> is_prefix m p) (modifiedPaths s)"

definition markModified :: "path \<Rightarrow> attendance_session \<Rightarrow> attendance_session" where
  "markModified p s = (if p \<in> set (modifiedPaths s) then s else s\<lparr>modifiedPaths := modifiedPaths s @ [p]\<rparr>)"

text \<open>Assignments to the paths the methods write; an assignment records its path.\<close>

definition set_status :: "session_status \<Rightarrow> attendance_session \<Rightarrow> attendance_session" where
  "set_status v s = markModified [''status''] (s\<lparr>status := v\<rparr>)"

definition set_startTime :: "int \<Rightarrow> attendance_session \<Rightarrow> attendance_session" where
  "set_startTime v s = markModified [''startTime''] (s\<lparr>startTime := v\<rparr>)"

definition set_endTime :: "int \<Rightarrow> attendance_session \<Rightarrow> attendance_session" where
  "set_endTime v s = markModified [''endTime''] (s\<lparr>endTime := v\<rparr>)"

definition set_window_start :: "int \<Rightarrow> attendance_session \<Rightarrow> attendance_session" where
  "set_window_start v s =
     markModified [''attendanceWindow'', ''start'']
       (s\<lparr>attendanceWindow := (attendanceWindow s)\<lparr>window_start := v\<rparr>\<rparr>)"

definition set_window_end :: "int \<Rightarrow> attendance_session \<Rightarrow> attendance_session" where
  "set_window_end v s =
     markModified [''attendanceWindow'', ''end'']
       (s\<lparr>attendanceWindow := (attendanceWindow s)\<lparr>window_end := v\<rparr>\<rparr>)"

definition set_attendanceWindowMinutes :: "int \<Rightarrow> attendance_session \<Rightarrow> attendance_session" where
  "set_attendanceWindowMinutes v s =
     markModified [''settings'', ''attendanceWindowMinutes'']
       (s\<lparr>settings := (settings s)\<lparr>attendanceWindowMinutes := v\<rparr>\<rparr>)"

subsection \<open>The pre-save hook and save\<close>

text \<open>
  \<open>attendanceSessionSchema.pre('save')\<close>: the window is written when the document is
  new, when \<open>startTime\<close> is modified, or when the path \<open>attendanceWindowMinutes\<close> is
  modified. The hook asks for the top-level path \<open>attendanceWindowMinutes\<close>, as the
  source does; the schema keeps the setting at \<open>settings.attendanceWindowMinutes\<close>.
\<close>

definition pre_save :: "attendance_session \<Rightarrow> attendance_session" where
  "pre_save s =
     (if isNew s \<or> isModified [''startTime''] s \<or> isModified [''attendanceWindowMinutes''] s
      then (let s1 = set_window_start (startTime s) s
            in set_window_end (startTime s1 + attendanceWindowMinutes (settings s1) * 60 * 1000) s1)
      else s)"

text \<open>
  \<open>save()\<close> runs the hook and stores the document, after which it is neither new nor
  modified. Validation and storage failures are outside this model.
\<close>

definition save :: "attendance_session \<Rightarrow> attendance_session" where
  "save s = (pre_save s)\<lparr>isNew := False, modifiedPaths := []\<rparr>"

subsection \<open>Session methods\<close>

text \<open>The clock reading \<open>new Date()\<close> is the parameter \<open>now\<close>.\<close>

definition isAttendanceWindowOpen :: "int \<Rightarrow> attendance_session \<Rightarrow> bool" where
  "isAttendanceWindowOpen now s =
     (status s = Active \<and>
      now \<ge> window_start (attendanceWindow s) \<and>
      now \<le> window_end (attendanceWindow s))"

record mark_result =
  canMark :: bool
  reason :: "string option"

definition canMarkAttendance :: "int \<Rightarrow> attendance_session \<Rightarrow> nat \<Rightarrow> mark_result" where
  "canMarkAttendance now s studentId =
     (if \<not> isAttendanceWindowOpen now s
      then \<lparr>canMark = False, reason = Some ''Attendance window is closed''\<rparr>
      else if studentId \<in> set (attendance s)
      then \<lparr>canMark = False, reason = Some ''Attendance already marked''\<rparr>
      else \<lparr>canMark = True, reason = None\<rparr>)"

definition startSession :: "int \<Rightarrow> attendance_session \<Rightarrow> attendance_session" where
  "startSession now s =
     (let s1 = set_status Active s;
          s2 = set_startTime now s1;
          s3 = set_window_start (startTime s2) s2;
          s4 = set_window_end (startTime s3 + attendanceWindowMinutes (settings s3) * 60 * 1000) s3
      in save s4)"

definition endSession :: "int \<Rightarrow> attendance_session \<Rightarrow> attendance_session" where
  "endSession now s = save (set_endTime now (set_status Completed s))"

definition cancelSession :: "attendance_session \<Rightarrow> attendance_session" where
  "cancelSession s = save (set_status Cancelled s)"

section \<open>Attendance records (the Attendance model)\<close>

text \<open>
  The attendance document. A JavaScript Number is a real number here, and a Number
  field that may be absent (\<open>undefined\<close>) is a \<open>real option\<close>; the schema asks for
  \<open>location.latitude\<close> and \<open>location.longitude\<close> only when the status is present or
  late. The field \<open>status\<close> of the source is \<open>att_status\<close>, the document's \<open>_id\<close>
  is \<open>record_id\<close>.
\<close>

datatype attendance_status = Present | Absent | Late | Excused

record geo_location =
  latitude :: "real option"
  longitude :: "real option"

record attendance_record =
  record_id :: nat
  classroom :: nat
  student :: nat
  teacher :: nat
  session :: nat
  att_status :: attendance_status
  markedAt :: int
  location :: geo_location

subsection \<open>Indexes of the collection\<close>

text \<open>
  The eight \<open>attendanceSchema.index\<close> declarations, in the order of the source. None
  of them passes the option \<open>unique\<close>, and no field of the schema sets it.
\<close>

record index_decl =
  index_keys :: "string list"
  index_unique :: bool

definition attendanceSchema_indexes :: "index_decl list" where
  "attendanceSchema_indexes =
     [\<lparr>index_keys = [''classroom'', ''student''], index_unique = False\<rparr>,
      \<lparr>index_keys = [''session''], index_unique = False\<rparr>,
      \<lparr>index_keys = [''markedAt''], index_unique = False\<rparr>,
      \<lparr>index_keys = [''status''], index_unique = False\<rparr>,
      \<lparr>index_keys = [''location.latitude'', ''location.longitude''], index_unique = False\<rparr>,
      \<lparr>index_keys = [''classroom'', ''markedAt''], index_unique = False\<rparr>,
      \<lparr>index_keys = [''student'', ''markedAt''], index_unique = False\<rparr>,
      \<lparr>index_keys = [''teacher'', ''markedAt''], index_unique = False\<rparr>]"

subsection \<open>Marking attendance\<close>







subsection \<open>Distance and geofence\<close>

text \<open>\<open>Math.atan2(y, x)\<close> on real numbers.\<close>

definition atan2 :: "real \<Rightarrow> real \<Rightarrow> real" where
  "atan2 y x =
     (if 0 < x then arctan (y / x)
      else if x < 0 \<and> 0 \<le> y then arctan (y / x) + pi
      else if x < 0 then arctan (y / x) - pi
      else if 0 < y then pi / 2
      else if y < 0 then - (pi / 2)
      else 0)"

definition calculateDistance :: "real \<Rightarrow> real \<Rightarrow> real \<Rightarrow> real \<Rightarrow> real" where
  "calculateDistance lat1 lon1 lat2 lon2 =
     (let R = 6371000;
          phi1 = lat1 * pi / 180;
          phi2 = lat2 * pi / 180;
          dphi = (lat2 - lat1) * pi / 180;
          dlam = (lon2 - lon1) * pi / 180;
          a = sin (dphi / 2) * sin (dphi / 2) +
              cos phi1 * cos phi2 * sin (dlam / 2) * sin (dlam / 2);
          c = 2 * atan2 (sqrt a) (sqrt (1 - a))
      in R * c)"

text \<open>\<open>!x\<close> for a Number that may be absent: true for \<open>undefined\<close> and for 0.\<close>

fun falsy :: "real option \<Rightarrow> bool" where
  "falsy None = True"
| "falsy (Some x) = (x = 0)"

datatype js_error = TypeError

text \<open>
  \<open>isWithinGeofence(classroomLocation, radius)\<close>. The early return comes first. After
  it, reading a property of an absent \<open>classroomLocation\<close> throws a TypeError; an
  absent coordinate of the classroom makes the distance NaN, and \<open>NaN <= radius\<close> is
  false.
\<close>

definition isWithinGeofence ::
  "attendance_record \<Rightarrow> geo_location option \<Rightarrow> real \<Rightarrow> js_error + bool" where
  "isWithinGeofence r classroomLocation radius =
     (if falsy (latitude (location r)) \<or> falsy (longitude (location r)) then Inr False
      else (case classroomLocation of
              None \<Rightarrow> Inl TypeError
            | Some c \<Rightarrow>
                (case (latitude (location r), longitude (location r), latitude c, longitude c) of
                   (Some la, Some lo, Some cla, Some clo) \<Rightarrow>
                     Inr (calculateDistance la lo cla clo \<le> radius)
                 | _ \<Rightarrow> Inr False)))"

subsection \<open>Aggregation\<close>

text \<open>
  The stage \<open>$group\<close> with \<open>count: {$sum: 1}\<close>: one output document per distinct key,
  with the number of input documents that carry it. No input gives no output.
\<close>

fun add_to_group :: "'k \<Rightarrow> ('k \<times> nat) list \<Rightarrow> ('k \<times> nat) list" where
  "add_to_group k [] = [(k, 1)]"
| "add_to_group k ((k', n) # gs) =
     (if k = k' then (k', Suc n) # gs else (k', n) # add_to_group k gs)"

definition group_count :: "'k list \<Rightarrow> ('k \<times> nat) list" where
  "group_count ks = foldl (\<lambda>gs k. add_to_group k gs) [] ks"

definition group_by_status :: "attendance_record list \<Rightarrow> (attendance_status \<times> nat) list" where
  "group_by_status rs = group_count (map att_status rs)"

text \<open>\<open>stats.find(s => s._id === st)?.count || 0\<close>\<close>

definition find_count :: "attendance_status \<Rightarrow> (attendance_status \<times> nat) list \<Rightarrow> nat" where
  "find_count st stats = (case find (\<lambda>g. fst g = st) stats of None \<Rightarrow> 0 | Some g \<Rightarrow> snd g)"

definition set_statistics :: "session_statistics \<Rightarrow> attendance_session \<Rightarrow> attendance_session" where
  "set_statistics v s = markModified [''statistics''] (s\<lparr>statistics := v\<rparr>)"

text \<open>
  \<open>updateStatistics()\<close>, over the documents of the Attendance collection. The
  percentage is assigned only inside the test \<open>totalStudents > 0\<close>.
\<close>

definition updateStatistics :: "attendance_record list \<Rightarrow> attendance_session \<Rightarrow> attendance_session" where
  "updateStatistics records s =
     (let stats = group_by_status (filter (\<lambda>r. session r = session_id s) records);
          st1 = (statistics s)\<lparr>totalStudents := foldl (\<lambda>sum stat. sum + snd stat) 0 stats\<rparr>;
          st2 = st1\<lparr>presentCount := find_count Present stats\<rparr>;
          st3 = st2\<lparr>absentCount := find_count Absent stats\<rparr>;
          st4 = st3\<lparr>lateCount := find_count Late stats\<rparr>;
          st5 = st4\<lparr>excusedCount := find_count Excused stats\<rparr>;
          st6 = (if totalStudents st5 > 0
                 then st5\<lparr>attendancePercentage :=
                        (real (presentCount st5) / real (totalStudents st5)) * 100\<rparr>
                 else st5)
      in save (set_statistics st6 s))"

text \<open>
  \<open>getStudentSummary(studentId, classroomId, startDate, endDate)\<close>. An argument that
  is not given (or is otherwise falsy) is \<open>None\<close>; a date is already the millisecond
  count of \<open>new Date(...)\<close>.
\<close>

definition matchStage ::
  "nat \<Rightarrow> nat option \<Rightarrow> int option \<Rightarrow> int option \<Rightarrow> attendance_record \<Rightarrow> bool" where
  "matchStage studentId classroomId startDate endDate r =
     (student r = studentId \<and>
      (case classroomId of None \<Rightarrow> True | Some c \<Rightarrow> classroom r = c) \<and>
      (case (startDate, endDate) of
         (Some a, Some b) \<Rightarrow> a \<le> markedAt r \<and> markedAt r \<le> b
       | _ \<Rightarrow> True))"

record summary_totals =
  total :: nat
  present :: nat
  absent :: nat
  late :: nat
  excused :: nat

record summary_row = summary_totals +
  row_attendancePercentage :: real

text \<open>\<open>{$sum: {$cond: [{$eq: ['$_id', st]}, '$count', 0]}}\<close>\<close>

definition cond_sum :: "attendance_status \<Rightarrow> (attendance_status \<times> nat) list \<Rightarrow> nat" where
  "cond_sum st gs = sum_list (map (\<lambda>g. if fst g = st then snd g else 0) gs)"

text \<open>The second \<open>$group\<close>, with \<open>_id: null\<close>: one document when there is input, none otherwise.\<close>

definition group_totals :: "(attendance_status \<times> nat) list \<Rightarrow> summary_totals list" where
  "group_totals gs =
     (if gs = [] then []
      else [\<lparr>total = sum_list (map snd gs), present = cond_sum Present gs,
             absent = cond_sum Absent gs, late = cond_sum Late gs,
             excused = cond_sum Excused gs\<rparr>])"

datatype aggregate_error = DivideByZero

text \<open>\<open>$addFields\<close> with \<open>$multiply: [{$divide: ['$present', '$total']}, 100]\<close>; \<open>$divide\<close> by zero fails.\<close>

fun addFields :: "summary_totals list \<Rightarrow> aggregate_error + summary_row list" where
  "addFields [] = Inr []"
| "addFields (t # ts) =
     (if total t = 0 then Inl DivideByZero
      else (case addFields ts of
              Inl e \<Rightarrow> Inl e
            | Inr rows \<Rightarrow>
                Inr (\<lparr>total = total t, present = present t, absent = absent t, late = late t,
                      excused = excused t,
                      row_attendancePercentage = (real (present t) / real (total t)) * 100\<rparr>
                     # rows)))"

definition match_records ::
  "attendance_record list \<Rightarrow> nat \<Rightarrow> nat option \<Rightarrow> int option \<Rightarrow> int option
     \<Rightarrow> attendance_record list" where
  "match_records records studentId classroomId startDate endDate =
     filter (matchStage studentId classroomId startDate endDate) records"

definition getStudentSummary ::
  "attendance_record list \<Rightarrow> nat \<Rightarrow> nat option \<Rightarrow> int option \<Rightarrow> int option
     \<Rightarrow> aggregate_error + summary_row list" where
  "getStudentSummary records studentId classroomId startDate endDate =
     addFields (group_totals (group_by_status
       (match_records records studentId classroomId startDate endDate)))"

section \<open>Concrete documents\<close>

text \<open>
  An attendance document of classroom 3, marked at 1100000, with the given id, student,
  session, status and location.
\<close>

definition attendance_doc ::
  "nat \<Rightarrow> nat \<Rightarrow> nat \<Rightarrow> attendance_status \<Rightarrow> real option \<Rightarrow> real option \<Rightarrow> attendance_record" where
  "attendance_doc i stu sess st la lo =
     \<lparr>record_id = i, classroom = 3, student = stu, teacher = 2, session = sess,
      att_status = st, markedAt = 1100000,
      location = \<lparr>latitude = la, longitude = lo\<rparr>\<rparr>"

text \<open>Five documents of session 1: three present, one absent, one late.\<close>

definition five_records :: "attendance_record list" where
  "five_records =
     [attendance_doc 11 7 1 Present (Some 28.6) (Some 77.2),
      attendance_doc 12 8 1 Absent None None,
      attendance_doc 13 9 1 Present (Some 28.6) (Some 77.2),
      attendance_doc 14 10 1 Late (Some 28.6) (Some 77.2),
      attendance_doc 15 11 1 Present (Some 28.6) (Some 77.2)]"

text \<open>Documents of student 7 over five sessions, with the same statuses.\<close>

definition student_records :: "attendance_record list" where
  "student_records =
     [attendance_doc 21 7 1 Present (Some 28.6) (Some 77.2),
      attendance_doc 22 7 2 Absent None None,
      attendance_doc 23 7 3 Present (Some 28.6) (Some 77.2),
      attendance_doc 24 7 4 Late (Some 28.6) (Some 77.2),
      attendance_doc 25 7 5 Present (Some 28.6) (Some 77.2),
      attendance_doc 26 8 1 Present (Some 28.6) (Some 77.2)]"

text \<open>A stored session used in the concrete evaluations below.\<close>

definition stored_session :: "session_status \<Rightarrow> attendance_session" where
  "stored_session st =
     \<lparr>session_id = 1, startTime = 1000000, endTime = 4600000,
      attendanceWindow = \<lparr>window_start = 1000000, window_end = 1300000\<rparr>,
      status = st,
      settings = \<lparr>allowLateAttendance = False, requireLocation = True,
                  requireBiometric = False, autoMarkAbsent = True,
                  attendanceWindowMinutes = 5\<rparr>,
      attendance = [7, 8],
      statistics = \<lparr>totalStudents = 0, presentCount = 0, absentCount = 0, lateCount = 0,
                    excusedCount = 0, attendancePercentage = 0\<rparr>,
      isNew = False, modifiedPaths = []\<rparr>"

section \<open>Properties of the session methods\<close>

lemma markModified_fields [simp]:
  "status (markModified p s) = status s"
  "startTime (markModified p s) = startTime s"
  "endTime (markModified p s) = endTime s"
  "attendanceWindow (markModified p s) = attendanceWindow s"
  "settings (markModified p s) = settings s"
  "attendance (markModified p s) = attendance s"
  "statistics (markModified p s) = statistics s"
  "isNew (markModified p s) = isNew s"
  by (simp_all add: markModified_def)

lemma pre_save_fields [simp]:
  "status (pre_save s) = status s"
  "startTime (pre_save s) = startTime s"
  "endTime (pre_save s) = endTime s"
  "settings (pre_save s) = settings s"
  "attendance (pre_save s) = attendance s"
  "statistics (pre_save s) = statistics s"
  by (simp_all add: pre_save_def Let_def set_window_start_def set_window_end_def)

lemma save_fields [simp]:
  "status (save s) = status s"
  "startTime (save s) = startTime s"
  "endTime (save s) = endTime s"
  "settings (save s) = settings s"
  "attendance (save s) = attendance s"
  "statistics (save s) = statistics s"
  "attendanceWindow (save s) = attendanceWindow (pre_save s)"
  by (simp_all add: save_def)

text \<open>
  Saving a new session, or one whose \<open>startTime\<close> was assigned, writes the window
  from \<open>startTime\<close> and the configured minutes.
\<close>

lemma pre_save_window_when_recomputed:
  assumes "isNew s \<or> isModified [''startTime''] s"
  shows "attendanceWindow (pre_save s) =
           \<lparr>window_start = startTime s,
            window_end = startTime s + attendanceWindowMinutes (settings s) * 60 * 1000\<rparr>"
  using assms by (auto simp: pre_save_def Let_def set_window_start_def set_window_end_def)

text \<open>
  C1. The stored session has \<open>startTime = 1000000\<close> and the five-minute window
  \<open>[1000000, 1300000]\<close>. Only \<open>settings.attendanceWindowMinutes\<close> is changed, to 10,
  and the session is saved. The hook tests the path \<open>attendanceWindowMinutes\<close>,
  which is not the path that was assigned, so the window is not recomputed: its end
  stays at 1300000 and differs from \<open>startTime + 10 minutes = 1600000\<close>.
\<close>

theorem save_after_minutes_change_keeps_old_window:
  "attendanceWindowMinutes (settings (save (set_attendanceWindowMinutes 10 (stored_session Scheduled)))) = 10 \<and>
   startTime (save (set_attendanceWindowMinutes 10 (stored_session Scheduled))) = 1000000 \<and>
   window_end (attendanceWindow (save (set_attendanceWindowMinutes 10 (stored_session Scheduled)))) = 1300000 \<and>
   window_end (attendanceWindow (save (set_attendanceWindowMinutes 10 (stored_session Scheduled))))
     \<noteq> startTime (save (set_attendanceWindowMinutes 10 (stored_session Scheduled)))
         + attendanceWindowMinutes (settings (save (set_attendanceWindowMinutes 10 (stored_session Scheduled)))) * 60 * 1000"
  by (simp add: save_def pre_save_def isModified_def set_attendanceWindowMinutes_def
      markModified_def stored_session_def)

text \<open>
  C3, as the code has it. \<open>startSession()\<close> has no guard on the current status: from
  every status it makes the session active, sets \<open>startTime\<close> to the clock reading and
  writes the window \<open>[startTime, startTime + attendanceWindowMinutes]\<close>; it never
  rejects the call as an invalid transition.
\<close>

theorem startSession_unguarded:
  "status (startSession now s) = Active \<and>
   startTime (startSession now s) = now \<and>
   attendanceWindow (startSession now s) =
     \<lparr>window_start = now,
      window_end = now + attendanceWindowMinutes (settings s) * 60 * 1000\<rparr>"
  by (simp add: startSession_def Let_def set_status_def set_startTime_def
      set_window_start_def set_window_end_def pre_save_def)

text \<open>
  C3 as stated fails: started again, a completed session becomes active.
\<close>

theorem startSession_completed_counterexample:
  "status (stored_session Completed) = Completed \<and>
   status (startSession 5000000 (stored_session Completed)) = Active \<and>
   startTime (startSession 5000000 (stored_session Completed)) = 5000000"
  by (simp add: startSession_def Let_def set_status_def set_startTime_def
      set_window_start_def set_window_end_def stored_session_def)

text \<open>
  C4, as the code has it. Each of the three methods writes its target status whatever
  the status was: \<open>startSession\<close> gives active, \<open>endSession\<close> gives completed (and
  sets \<open>endTime\<close> to the clock reading) and \<open>cancelSession\<close> gives cancelled. So a
  scheduled session that is started and then ended runs through scheduled, active,
  completed, and cancelling a scheduled or an active session gives cancelled; nothing
  holds a completed or cancelled session in its state.
\<close>

theorem session_transitions_unguarded:
  "status (startSession now s) = Active \<and>
   status (endSession now s) = Completed \<and>
   status (cancelSession s) = Cancelled \<and>
   endTime (endSession now s) = now"
  by (simp add: startSession_def endSession_def cancelSession_def Let_def
      set_status_def set_startTime_def set_endTime_def set_window_start_def set_window_end_def)

text \<open>
  C4 as stated fails: a completed session can be cancelled, a cancelled session can be
  started and then ended.
\<close>

theorem terminal_status_changes_counterexample:
  "status (cancelSession (stored_session Completed)) = Cancelled \<and>
   status (startSession 5000000 (stored_session Cancelled)) = Active \<and>
   status (endSession 6000000 (startSession 5000000 (stored_session Cancelled))) = Completed"
  by (simp add: startSession_def endSession_def cancelSession_def Let_def
      set_status_def set_startTime_def set_endTime_def set_window_start_def set_window_end_def
      stored_session_def)

text \<open>
  C6. \<open>canMarkAttendance(studentId)\<close> answers "not allowed, the attendance window is
  closed" whenever the window is not open: the status is not active, or the clock is
  before \<open>attendanceWindow.start\<close>, or after \<open>attendanceWindow.end\<close> (also when
  the status is active). Otherwise it answers "not allowed, attendance already marked"
  when the student id is in the session's attendance list, and otherwise "allowed"
  with no reason. The source names the flag \<open>canMark\<close> and words the two reasons
  \<open>Attendance window is closed\<close> and \<open>Attendance already marked\<close>.
\<close>

theorem canMarkAttendance_decision:
  "((status s \<noteq> Active \<or> now < window_start (attendanceWindow s)
       \<or> window_end (attendanceWindow s) < now) \<longrightarrow>
      canMarkAttendance now s studentId =
        \<lparr>canMark = False, reason = Some ''Attendance window is closed''\<rparr>) \<and>
   ((status s = Active \<and> window_start (attendanceWindow s) \<le> now
       \<and> now \<le> window_end (attendanceWindow s) \<and> studentId \<in> set (attendance s)) \<longrightarrow>
      canMarkAttendance now s studentId =
        \<lparr>canMark = False, reason = Some ''Attendance already marked''\<rparr>) \<and>
   ((status s = Active \<and> window_start (attendanceWindow s) \<le> now
       \<and> now \<le> window_end (attendanceWindow s) \<and> studentId \<notin> set (attendance s)) \<longrightarrow>
      canMarkAttendance now s studentId = \<lparr>canMark = True, reason = None\<rparr>)"
  by (auto simp: canMarkAttendance_def isAttendanceWindowOpen_def)

text \<open>
  The decision on the stored session, whose window is \<open>[1000000, 1300000]\<close> and whose
  attendance list holds 7 and 8: before the window, after it, inside it with another
  status, inside it for student 7 and for student 9.
\<close>

theorem canMarkAttendance_decision_witness:
  "canMarkAttendance 999999 (stored_session Active) 9 =
     \<lparr>canMark = False, reason = Some ''Attendance window is closed''\<rparr> \<and>
   canMarkAttendance 1300001 (stored_session Active) 9 =
     \<lparr>canMark = False, reason = Some ''Attendance window is closed''\<rparr> \<and>
   canMarkAttendance 1100000 (stored_session Scheduled) 9 =
     \<lparr>canMark = False, reason = Some ''Attendance window is closed''\<rparr> \<and>
   canMarkAttendance 1100000 (stored_session Active) 7 =
     \<lparr>canMark = False, reason = Some ''Attendance already marked''\<rparr> \<and>
   canMarkAttendance 1100000 (stored_session Active) 9 = \<lparr>canMark = True, reason = None\<rparr>"
  using canMarkAttendance_decision [of "stored_session Active" 999999 9]
    canMarkAttendance_decision [of "stored_session Active" 1300001 9]
    canMarkAttendance_decision [of "stored_session Scheduled" 1100000 9]
    canMarkAttendance_decision [of "stored_session Active" 1100000 7]
    canMarkAttendance_decision [of "stored_session Active" 1100000 9]
  by (simp add: stored_session_def)

section \<open>Properties of the aggregations\<close>

lemma find_count_add_to_group:
  "find_count st (add_to_group k gs) = find_count st gs + (if k = st then 1 else 0)"
  by (induction k gs rule: add_to_group.induct) (auto simp: find_count_def)

lemma cond_sum_add_to_group:
  "cond_sum st (add_to_group k gs) = cond_sum st gs + (if k = st then 1 else 0)"
  by (induction k gs rule: add_to_group.induct) (auto simp: cond_sum_def)

lemma sum_counts_add_to_group:
  "sum_list (map snd (add_to_group k gs)) = Suc (sum_list (map snd gs))"
  by (induction k gs rule: add_to_group.induct) auto

lemma add_to_group_not_empty: "add_to_group k gs \<noteq> []"
  by (cases gs) (auto split: if_splits)

lemma group_count_snoc: "group_count (ks @ [k]) = add_to_group k (group_count ks)"
  by (simp add: group_count_def)

lemma group_count_Nil: "group_count [] = []"
  by (simp add: group_count_def)

text \<open>A group's count is the number of documents with its key.\<close>

lemma find_count_group_count: "find_count st (group_count ks) = count_list ks st"
proof (induction ks rule: rev_induct)
  case Nil
  show ?case by (simp add: group_count_Nil find_count_def)
next
  case (snoc k ks)
  then show ?case by (simp add: group_count_snoc find_count_add_to_group)
qed

lemma cond_sum_group_count: "cond_sum st (group_count ks) = count_list ks st"
proof (induction ks rule: rev_induct)
  case Nil
  show ?case by (simp add: group_count_Nil cond_sum_def)
next
  case (snoc k ks)
  then show ?case by (simp add: group_count_snoc cond_sum_add_to_group)
qed

lemma sum_counts_group_count: "sum_list (map snd (group_count ks)) = length ks"
proof (induction ks rule: rev_induct)
  case Nil
  show ?case by (simp add: group_count_Nil)
next
  case (snoc k ks)
  then show ?case by (simp add: group_count_snoc sum_counts_add_to_group)
qed

lemma group_count_empty_iff: "group_count ks = [] \<longleftrightarrow> ks = []"
  by (cases ks rule: rev_cases) (simp_all add: group_count_Nil group_count_snoc add_to_group_not_empty)

lemma reduce_counts:
  "foldl (\<lambda>sum stat. sum + snd stat) n stats = n + sum_list (map snd stats)" for n :: nat
  by (induction stats arbitrary: n) auto

text \<open>
  What \<open>updateStatistics\<close> stores: the five counts are those of the session's
  documents; the percentage is \<open>presentCount / totalStudents * 100\<close> when there is a
  document, and the percentage the session already had when there is none.
\<close>

lemma statistics_updateStatistics:
  "statistics (updateStatistics records s) =
     (let ks = map att_status (filter (\<lambda>r. session r = session_id s) records)
      in \<lparr>totalStudents = length ks,
          presentCount = count_list ks Present,
          absentCount = count_list ks Absent,
          lateCount = count_list ks Late,
          excusedCount = count_list ks Excused,
          attendancePercentage =
            (if 0 < length ks then (real (count_list ks Present) / real (length ks)) * 100
             else attendancePercentage (statistics s))\<rparr>)"
  unfolding updateStatistics_def Let_def save_fields set_statistics_def markModified_fields
  by (simp add: group_by_status_def find_count_group_count reduce_counts sum_counts_group_count)

text \<open>
  C5. Over the five documents of session 1 (three present, one absent, one late)
  \<open>updateStatistics\<close> stores the percentage 60. Recomputed then over an empty
  collection, the session has \<open>totalStudents = 0\<close> and still the percentage 60: the
  counts are reset, the percentage is not.
\<close>

theorem updateStatistics_keeps_stale_percentage:
  "attendancePercentage (statistics (updateStatistics five_records (stored_session Active))) = 60 \<and>
   totalStudents (statistics
     (updateStatistics [] (updateStatistics five_records (stored_session Active)))) = 0 \<and>
   presentCount (statistics
     (updateStatistics [] (updateStatistics five_records (stored_session Active)))) = 0 \<and>
   attendancePercentage (statistics
     (updateStatistics [] (updateStatistics five_records (stored_session Active)))) = 60"
  by (simp add: updateStatistics_def Let_def set_statistics_def save_def pre_save_def
      set_window_start_def set_window_end_def markModified_def isModified_def
      group_by_status_def group_count_def find_count_def five_records_def attendance_doc_def
      stored_session_def)

text \<open>
  C10. When no document matches the student and the filters, \<open>getStudentSummary\<close>
  returns no row at all. When at least one matches, it returns exactly one row: the
  total, the four counts by status and \<open>present / total * 100\<close>.
\<close>

theorem getStudentSummary_rows:
  "(match_records records sid cid sd ed = [] \<longrightarrow>
      getStudentSummary records sid cid sd ed = Inr []) \<and>
   (match_records records sid cid sd ed \<noteq> [] \<longrightarrow>
      getStudentSummary records sid cid sd ed =
        Inr [\<lparr>total = length (match_records records sid cid sd ed),
              present = count_list (map att_status (match_records records sid cid sd ed)) Present,
              absent = count_list (map att_status (match_records records sid cid sd ed)) Absent,
              late = count_list (map att_status (match_records records sid cid sd ed)) Late,
              excused = count_list (map att_status (match_records records sid cid sd ed)) Excused,
              row_attendancePercentage =
                (real (count_list (map att_status (match_records records sid cid sd ed)) Present)
                  / real (length (match_records records sid cid sd ed))) * 100\<rparr>])"
  by (simp add: getStudentSummary_def group_totals_def group_by_status_def
      group_count_empty_iff sum_counts_group_count cond_sum_group_count)

text \<open>
  Student 9 has no document and student 7 has none in classroom 4: no row. Student 7
  in classroom 3 within the dates has five documents: one row, with 60 percent.
\<close>

theorem getStudentSummary_rows_witness:
  "getStudentSummary student_records 9 None None None = Inr [] \<and>
   getStudentSummary student_records 7 (Some 4) None None = Inr [] \<and>
   getStudentSummary student_records 7 (Some 3) (Some 0) (Some 2000000) =
     Inr [\<lparr>total = 5, present = 3, absent = 1, late = 1, excused = 0,
           row_attendancePercentage = 60\<rparr>]"
  using getStudentSummary_rows [of student_records 9 None None None]
    getStudentSummary_rows [of student_records 7 "Some 4" None None]
    getStudentSummary_rows [of student_records 7 "Some 3" "Some 0" "Some 2000000"]
  by (simp add: match_records_def matchStage_def student_records_def attendance_doc_def)

section \<open>Properties of marking, the distance and the geofence\<close>

text \<open>No index that the schema declares is unique.\<close>

lemma attendanceSchema_indexes_none_unique:
  "list_all (\<lambda>ix. \<not> index_unique ix) attendanceSchema_indexes"
  by (simp add: attendanceSchema_indexes_def)




lemma haversine_term_symmetric:
  "sin ((a - b) * pi / 180 / 2) * sin ((a - b) * pi / 180 / 2) =
   sin ((b - a) * pi / 180 / 2) * sin ((b - a) * pi / 180 / 2)" for a b :: real
proof -
  have "a - b = - (b - a)" by simp
  then have "(a - b) * pi / 180 / 2 = - ((b - a) * pi / 180 / 2)"
    by (simp only: mult_minus_left minus_divide_left)
  then show ?thesis by (simp only: sin_minus minus_mult_minus)
qed

lemma calculateDistance_same_point: "calculateDistance a b a b = 0"
  by (simp add: calculateDistance_def atan2_def)

text \<open>
  C7. When the record's location has no latitude or no longitude, \<open>isWithinGeofence\<close>
  returns false and throws nothing, whatever the classroom location (also an absent
  one) and the radius.
\<close>

theorem isWithinGeofence_missing_coordinate:
  assumes "latitude (location r) = None \<or> longitude (location r) = None"
  shows "isWithinGeofence r classroomLocation radius = Inr False"
  using assms by (auto simp: isWithinGeofence_def)

text \<open>A record without latitude and no classroom location; a record without longitude.\<close>

theorem isWithinGeofence_missing_coordinate_witness:
  "isWithinGeofence (attendance_doc 1 7 1 Absent None (Some 77.2)) None 100 = Inr False \<and>
   isWithinGeofence (attendance_doc 1 7 1 Absent (Some 28.6) None)
     (Some \<lparr>latitude = Some 28.6, longitude = Some 77.2\<rparr>) 100 = Inr False"
  using isWithinGeofence_missing_coordinate [of "attendance_doc 1 7 1 Absent None (Some 77.2)" None 100]
    isWithinGeofence_missing_coordinate [of "attendance_doc 1 7 1 Absent (Some 28.6) None"
      "Some \<lparr>latitude = Some 28.6, longitude = Some 77.2\<rparr>" 100]
  by (simp add: attendance_doc_def)

text \<open>
  C8. The distance is symmetric: exchanging the two points does not change it.
\<close>

theorem calculateDistance_symmetric:
  "calculateDistance lat1 lon1 lat2 lon2 = calculateDistance lat2 lon2 lat1 lon1"
  unfolding calculateDistance_def Let_def
  using haversine_term_symmetric [of lat2 lat1] haversine_term_symmetric [of lon2 lon1]
  by (simp add: mult.commute mult.left_commute)

text \<open>
  C9. When the record's latitude is 0 or its longitude is 0, \<open>isWithinGeofence\<close>
  returns false, whatever the classroom location and the radius: the test that
  catches a missing coordinate catches the number 0 too.
\<close>

theorem isWithinGeofence_zero_coordinate:
  assumes "latitude (location r) = Some 0 \<or> longitude (location r) = Some 0"
  shows "isWithinGeofence r classroomLocation radius = Inr False"
  using assms by (auto simp: isWithinGeofence_def)

text \<open>
  A record on the equator, at the very point of the classroom: its distance to the
  centre is 0, within the radius of 100 metres, and the answer is false; so for a
  record on the prime meridian. A record at the classroom's point with no zero
  coordinate is within the fence.
\<close>

theorem isWithinGeofence_zero_coordinate_witness:
  "calculateDistance 0 77.2 0 77.2 \<le> 100 \<and>
   isWithinGeofence (attendance_doc 41 7 1 Present (Some 0) (Some 77.2))
     (Some \<lparr>latitude = Some 0, longitude = Some 77.2\<rparr>) 100 = Inr False \<and>
   isWithinGeofence (attendance_doc 42 7 1 Present (Some 28.6) (Some 0))
     (Some \<lparr>latitude = Some 28.6, longitude = Some 0\<rparr>) 100 = Inr False \<and>
   isWithinGeofence (attendance_doc 43 7 1 Present (Some 28.6) (Some 77.2))
     (Some \<lparr>latitude = Some 28.6, longitude = Some 77.2\<rparr>) 100 = Inr True"
  using isWithinGeofence_zero_coordinate [of "attendance_doc 41 7 1 Present (Some 0) (Some 77.2)"
      "Some \<lparr>latitude = Some 0, longitude = Some 77.2\<rparr>" 100]
    isWithinGeofence_zero_coordinate [of "attendance_doc 42 7 1 Present (Some 28.6) (Some 0)"
      "Some \<lparr>latitude = Some 28.6, longitude = Some 0\<rparr>" 100]
  by (simp add: attendance_doc_def isWithinGeofence_def calculateDistance_same_point)

end
